theory Spec2Isabelle
  imports Complex_Main "HOL-Library.Monad_Syntax"
begin

section \<open>Numbers\<close>

text \<open>
  A JavaScript number is modelled by its mathematical value: a finite number is a
  \<^typ>\<open>real\<close> (exact arithmetic: rounding and overflow of IEEE doubles are left out),
  and the three special values are constructors of their own. The inventory and the
  settings hold finite numbers, so their fields are \<^typ>\<open>real\<close>; the fields the code
  can set to \<open>Infinity\<close> (the ROI figures) are \<open>jsnum\<close>.
\<close>

datatype jsnum = Num real | PosInfinity | NegInfinity | NaN

text \<open>The operator \<open><\<close> on numbers: every comparison with \<open>NaN\<close> is false.\<close>

fun js_less :: "jsnum \<Rightarrow> jsnum \<Rightarrow> bool" where
  "js_less (Num a) (Num b) = (a < b)"
| "js_less (Num a) PosInfinity = True"
| "js_less (Num a) NegInfinity = False"
| "js_less (Num a) NaN = False"
| "js_less PosInfinity b = False"
| "js_less NegInfinity (Num b) = True"
| "js_less NegInfinity PosInfinity = True"
| "js_less NegInfinity NegInfinity = False"
| "js_less NegInfinity NaN = False"
| "js_less NaN b = False"

text \<open>The operator \<open><=\<close> on numbers.\<close>

fun js_le :: "jsnum \<Rightarrow> jsnum \<Rightarrow> bool" where
  "js_le NaN b = False"
| "js_le a NaN = False"
| "js_le a b = (\<not> js_less b a)"

text \<open>\<open>Math.min\<close> of two numbers: \<open>NaN\<close> if either is, else the smaller.\<close>

fun Math_min :: "jsnum \<Rightarrow> jsnum \<Rightarrow> jsnum" where
  "Math_min NaN b = NaN"
| "Math_min a NaN = NaN"
| "Math_min NegInfinity b = NegInfinity"
| "Math_min a NegInfinity = NegInfinity"
| "Math_min PosInfinity b = b"
| "Math_min a PosInfinity = a"
| "Math_min (Num a) (Num b) = Num (min a b)"

section \<open>Data model\<close>

record device =
  dev_id :: string
  roomId :: string
  dev_name :: string
  quantity :: real
  powerW :: real
  usageHours :: real

record room =
  room_id :: string
  room_name :: string
  purpose :: string

record solar_settings =
  electricityRate :: real
  solarCostPerKW :: real
  efficiencyFactor :: real
  sunlightHours :: real
  lifetimeYears :: real
  annualInflation :: real

record device_metrics =
  energyKWhDay :: real
  costDay :: real
  costMonth :: real
  costYear :: real

text \<open>\<open>{ ...device, metrics }\<close>: the device's own fields, and one more.\<close>

record device_with_metrics = device +
  dev_metrics :: device_metrics

record room_metrics =
  room_energyKWhDay :: real
  costYearGrid :: real
  requiredCapacityKW :: real
  installationCost :: real
  roiYears :: jsnum
  yearlySavings :: real

text \<open>\<open>{ ...room, devices, metrics }\<close>: the room's own fields, and two more.\<close>

record room_with_metrics = room +
  devices :: "device_with_metrics list"
  metrics :: room_metrics

record building_metrics =
  totalEnergyKWhDay :: real
  totalCostYearGrid :: real
  totalRequiredCapacityKW :: real
  totalInstallationCost :: real
  totalROIYears :: jsnum
  longTermSavings :: real
  paybackYears :: jsnum
  building_yearlySavings :: real

record building_totals =
  rooms :: "room_with_metrics list"
  building :: building_metrics

section \<open>Device metrics\<close>

definition calculateDeviceMetrics :: "device \<Rightarrow> real \<Rightarrow> device_metrics" where
  "calculateDeviceMetrics device rate =
     (let powerKW = powerW device / 1000;
          energyKWhDay = powerKW * quantity device * usageHours device;
          costDay = energyKWhDay * rate
      in \<lparr> energyKWhDay = energyKWhDay,
           costDay = costDay,
           costMonth = costDay * (365.25 / 12),
           costYear = costDay * 365.25 \<rparr>)"

section \<open>Building totals\<close>

text \<open>
  The inner \<open>roomDevices.map\<close>: its callback adds each device's energy and yearly cost
  to the two running sums of the room, which are passed along and returned here.
\<close>

fun roomDevices_map ::
  "real \<Rightarrow> device list \<Rightarrow> real \<Rightarrow> real \<Rightarrow> device_with_metrics list \<times> real \<times> real" where
  "roomDevices_map rate [] roomEnergy roomCost = ([], roomEnergy, roomCost)"
| "roomDevices_map rate (device # rest) roomEnergy roomCost =
     (let metrics = calculateDeviceMetrics device rate;
          roomEnergyKWhDay = roomEnergy + energyKWhDay metrics;
          roomCostYearGrid = roomCost + costYear metrics;
          (out, roomEnergyKWhDay, roomCostYearGrid) =
             roomDevices_map rate rest roomEnergyKWhDay roomCostYearGrid
      in (device.extend device (device_with_metrics.fields metrics) # out,
          roomEnergyKWhDay, roomCostYearGrid))"

text \<open>
  \<open>annualGenerationPerKW > 0 ? annualConsumptionKWh / annualGenerationPerKW : 0\<close>,
  written at the room level and again at the building level.
\<close>

definition requiredCapacity :: "real \<Rightarrow> real \<Rightarrow> real" where
  "requiredCapacity annualConsumptionKWh annualGenerationPerKW =
     (if annualGenerationPerKW > 0 then annualConsumptionKWh / annualGenerationPerKW else 0)"

text \<open>
  \<open>yearlySavings > 0 ? installationCost / yearlySavings : Infinity\<close>: the ROI before the
  clamp, written at the room level and again at the building level.
\<close>

definition roiYearsOf :: "real \<Rightarrow> real \<Rightarrow> jsnum" where
  "roiYearsOf cost savings =
     (if savings > 0 then Num (cost / savings) else PosInfinity)"

text \<open>
  The callback of \<open>rooms.map\<close> for one room. It returns the room with its metrics, and
  the room's energy and yearly cost, which the caller adds to the building's sums.
\<close>

definition roomWithMetrics ::
  "solar_settings \<Rightarrow> device list \<Rightarrow> room \<Rightarrow> room_with_metrics \<times> real \<times> real" where
  "roomWithMetrics solarSettings devs room =
     (let roomDevices = filter (\<lambda>d. roomId d = room_id room) devs;
          (devicesWithMetrics, roomEnergyKWhDay, roomCostYearGrid) =
             roomDevices_map (electricityRate solarSettings) roomDevices 0 0;
          annualConsumptionKWh = roomEnergyKWhDay * 365.25;
          annualGenerationPerKW =
             365.25 * sunlightHours solarSettings * efficiencyFactor solarSettings;
          requiredCapacityKW = requiredCapacity annualConsumptionKWh annualGenerationPerKW;
          installationCost = requiredCapacityKW * solarCostPerKW solarSettings;
          yearlySavings = roomCostYearGrid;
          roiYears = roiYearsOf installationCost yearlySavings
      in (room.extend room (room_with_metrics.fields devicesWithMetrics
            \<lparr> room_energyKWhDay = roomEnergyKWhDay,
              costYearGrid = roomCostYearGrid,
              requiredCapacityKW = (if requiredCapacityKW > 0 then requiredCapacityKW else 0),
              installationCost = installationCost,
              roiYears = Math_min roiYears (Num 999),
              yearlySavings = yearlySavings \<rparr>),
          roomEnergyKWhDay, roomCostYearGrid))"

text \<open>
  \<open>rooms.map\<close>, in the order of the list, with the two sums of the building passed
  along.
\<close>

fun rooms_map ::
  "solar_settings \<Rightarrow> device list \<Rightarrow> room list \<Rightarrow> real \<Rightarrow> real
     \<Rightarrow> room_with_metrics list \<times> real \<times> real" where
  "rooms_map solarSettings devs [] totalEnergy totalCost = ([], totalEnergy, totalCost)"
| "rooms_map solarSettings devs (room # rest) totalEnergy totalCost =
     (let (r, roomEnergyKWhDay, roomCostYearGrid) = roomWithMetrics solarSettings devs room;
          totalEnergyKWhDay = totalEnergy + roomEnergyKWhDay;
          totalCostYearGrid = totalCost + roomCostYearGrid;
          (out, totalEnergyKWhDay, totalCostYearGrid) =
             rooms_map solarSettings devs rest totalEnergyKWhDay totalCostYearGrid
      in (r # out, totalEnergyKWhDay, totalCostYearGrid))"

text \<open>
  The loop \<open>for (let i = 0; i < lifetimeYears; i++)\<close>. The bound is a number, not
  necessarily whole; the counter takes the values 0, 1, 2, ...
\<close>

function savingsLoop :: "real \<Rightarrow> real \<Rightarrow> nat \<Rightarrow> real \<Rightarrow> real \<Rightarrow> real \<times> real" where
  "savingsLoop lifetime inflation i futureSavings gridCost =
     (if real i < lifetime
      then savingsLoop lifetime inflation (i + 1)
             (futureSavings + gridCost) (gridCost * (1 + inflation))
      else (futureSavings, gridCost))"
  by pat_completeness auto
termination
proof (relation "measure (\<lambda>(lifetimeYears, annualInflation, i, futureSavings, gridCost).
                    nat \<lceil>lifetimeYears\<rceil> - i)")
  show "wf (measure (\<lambda>(lifetimeYears :: real, annualInflation :: real, i :: nat,
                        futureSavings :: real, gridCost :: real). nat \<lceil>lifetimeYears\<rceil> - i))"
    by simp
next
  fix lifetime inflation :: real and i :: nat and futureSavings gridCost :: real
  assume "real i < lifetime"
  then have "int i < \<lceil>lifetime\<rceil>"
    by (simp add: less_ceiling_iff)
  then show "((lifetime, inflation, i + 1, futureSavings + gridCost,
               gridCost * (1 + inflation)),
              (lifetime, inflation, i, futureSavings, gridCost))
             \<in> measure (\<lambda>(lifetimeYears, annualInflation, i, futureSavings, gridCost).
                    nat \<lceil>lifetimeYears\<rceil> - i)"
    by simp
qed

declare savingsLoop.simps [simp del]

definition calculateBuildingTotals ::
  "room list \<Rightarrow> device list \<Rightarrow> solar_settings \<Rightarrow> building_totals" where
  "calculateBuildingTotals rms devs solarSettings =
     (let (roomsWithMetrics, totalEnergyKWhDay, totalCostYearGrid) =
             rooms_map solarSettings devs rms 0 0;
          totalAnnualConsumptionKWh = totalEnergyKWhDay * 365.25;
          annualGenerationPerKW =
             365.25 * sunlightHours solarSettings * efficiencyFactor solarSettings;
          totalRequiredCapacityKW =
             requiredCapacity totalAnnualConsumptionKWh annualGenerationPerKW;
          totalInstallationCost = totalRequiredCapacityKW * solarCostPerKW solarSettings;
          totalYearlySavings = totalCostYearGrid;
          totalROIYears = roiYearsOf totalInstallationCost totalYearlySavings;
          (futureSavings, gridCost) =
             savingsLoop (lifetimeYears solarSettings) (annualInflation solarSettings)
               0 0 totalCostYearGrid;
          longTermSavings = futureSavings - totalInstallationCost
      in \<lparr> rooms = roomsWithMetrics,
           building =
             \<lparr> totalEnergyKWhDay = totalEnergyKWhDay,
               totalCostYearGrid = totalCostYearGrid,
               totalRequiredCapacityKW = totalRequiredCapacityKW,
               totalInstallationCost = totalInstallationCost,
               totalROIYears = Math_min totalROIYears (Num 999),
               longTermSavings = longTermSavings,
               paybackYears = totalROIYears,
               building_yearlySavings = totalYearlySavings \<rparr> \<rparr>)"

subsection \<open>The same computation with every division checked\<close>

text \<open>
  In JavaScript \<open>x / 0\<close> is \<open>Infinity\<close>, \<open>-Infinity\<close> or \<open>NaN\<close>; in HOL it is 0.
  The functions below repeat the computation with each division by a variable made
  explicit: a zero divisor gives \<open>None\<close>. (The two remaining divisions of the source
  have the literal divisors 1000 and 12.)
\<close>

definition div_checked :: "real \<Rightarrow> real \<Rightarrow> real option" where
  "div_checked x y = (if y = 0 then None else Some (x / y))"

definition roomWithMetrics_checked ::
  "solar_settings \<Rightarrow> device list \<Rightarrow> room \<Rightarrow> (room_with_metrics \<times> real \<times> real) option" where
  "roomWithMetrics_checked solarSettings devs room =
     (let roomDevices = filter (\<lambda>d. roomId d = room_id room) devs;
          (devicesWithMetrics, roomEnergyKWhDay, roomCostYearGrid) =
             roomDevices_map (electricityRate solarSettings) roomDevices 0 0;
          annualConsumptionKWh = roomEnergyKWhDay * 365.25;
          annualGenerationPerKW =
             365.25 * sunlightHours solarSettings * efficiencyFactor solarSettings
      in do {
        requiredCapacityKW \<leftarrow>
          (if annualGenerationPerKW > 0
           then div_checked annualConsumptionKWh annualGenerationPerKW else Some 0);
        let installationCost = requiredCapacityKW * solarCostPerKW solarSettings;
        let yearlySavings = roomCostYearGrid;
        roiYears \<leftarrow>
          (if yearlySavings > 0
           then map_option Num (div_checked installationCost yearlySavings)
           else Some PosInfinity);
        Some (room.extend room (room_with_metrics.fields devicesWithMetrics
               \<lparr> room_energyKWhDay = roomEnergyKWhDay,
                 costYearGrid = roomCostYearGrid,
                 requiredCapacityKW = (if requiredCapacityKW > 0 then requiredCapacityKW else 0),
                 installationCost = installationCost,
                 roiYears = Math_min roiYears (Num 999),
                 yearlySavings = yearlySavings \<rparr>),
              roomEnergyKWhDay, roomCostYearGrid)
      })"

fun rooms_map_checked ::
  "solar_settings \<Rightarrow> device list \<Rightarrow> room list \<Rightarrow> real \<Rightarrow> real
     \<Rightarrow> (room_with_metrics list \<times> real \<times> real) option" where
  "rooms_map_checked solarSettings devs [] totalEnergy totalCost =
     Some ([], totalEnergy, totalCost)"
| "rooms_map_checked solarSettings devs (room # rest) totalEnergy totalCost =
     do {
       (r, roomEnergyKWhDay, roomCostYearGrid) \<leftarrow>
          roomWithMetrics_checked solarSettings devs room;
       let totalEnergyKWhDay = totalEnergy + roomEnergyKWhDay;
       let totalCostYearGrid = totalCost + roomCostYearGrid;
       (out, totalEnergyKWhDay, totalCostYearGrid) \<leftarrow>
          rooms_map_checked solarSettings devs rest totalEnergyKWhDay totalCostYearGrid;
       Some (r # out, totalEnergyKWhDay, totalCostYearGrid)
     }"

definition calculateBuildingTotals_checked ::
  "room list \<Rightarrow> device list \<Rightarrow> solar_settings \<Rightarrow> building_totals option" where
  "calculateBuildingTotals_checked rms devs solarSettings =
     do {
       (roomsWithMetrics, totalEnergyKWhDay, totalCostYearGrid) \<leftarrow>
          rooms_map_checked solarSettings devs rms 0 0;
       let totalAnnualConsumptionKWh = totalEnergyKWhDay * 365.25;
       let annualGenerationPerKW =
          365.25 * sunlightHours solarSettings * efficiencyFactor solarSettings;
       totalRequiredCapacityKW \<leftarrow>
          (if annualGenerationPerKW > 0
           then div_checked totalAnnualConsumptionKWh annualGenerationPerKW else Some 0);
       let totalInstallationCost = totalRequiredCapacityKW * solarCostPerKW solarSettings;
       let totalYearlySavings = totalCostYearGrid;
       totalROIYears \<leftarrow>
          (if totalYearlySavings > 0
           then map_option Num (div_checked totalInstallationCost totalYearlySavings)
           else Some PosInfinity);
       let (futureSavings, gridCost) =
          savingsLoop (lifetimeYears solarSettings) (annualInflation solarSettings)
            0 0 totalCostYearGrid;
       let longTermSavings = futureSavings - totalInstallationCost;
       Some \<lparr> rooms = roomsWithMetrics,
              building =
                \<lparr> totalEnergyKWhDay = totalEnergyKWhDay,
                  totalCostYearGrid = totalCostYearGrid,
                  totalRequiredCapacityKW = totalRequiredCapacityKW,
                  totalInstallationCost = totalInstallationCost,
                  totalROIYears = Math_min totalROIYears (Num 999),
                  longTermSavings = longTermSavings,
                  paybackYears = totalROIYears,
                  building_yearlySavings = totalYearlySavings \<rparr> \<rparr>
     }"

section \<open>Recommendations\<close>

text \<open>
  Two library functions format numbers: \<open>Number.prototype.toFixed\<close> and the \<open>format\<close>
  method of \<open>Intl.NumberFormat('en-IN', { maximumFractionDigits: 0 })\<close>. Both return a
  string for every number (\<open>toFixed\<close> raises only for a digit count outside 0..100; the
  code passes 0, 1 and 2). Their output is not fixed here: they are parameters.
\<close>

record js_builtins =
  toFixed :: "jsnum \<Rightarrow> nat \<Rightarrow> string"
  numberFormat :: "real \<Rightarrow> string"

definition formatCurrency :: "js_builtins \<Rightarrow> real \<Rightarrow> string" where
  "formatCurrency js amount = ''Rs. '' @ numberFormat js amount"

record analysis_entry =
  roomName :: string
  yearlyCost_INR :: string
  requiredCapacity_KW :: string
  entry_roiYears :: string
  suggestedAction :: string

text \<open>
  What the request to the advisory service is built from: the two building figures
  interpolated into the query, and the per-room payload. The constant text of the
  prompt and the response schema are left out.
\<close>

record advisory_request =
  req_totalCostYearGrid :: string
  req_totalRequiredCapacityKW :: string
  req_rooms :: "analysis_entry list"

record room_recommendation =
  rec_roomName :: string
  suggestion :: string
  reasoning :: string

record recommendation =
  summary :: string
  totalSavings :: real
  breakevenPeriod :: real
  capacityNeeded :: real
  roomRecommendations :: "room_recommendation list"

text \<open>
  The ways through the \<open>try\<close> block, decided by the network and the service:
  \<^item> \<open>FetchRejected\<close>: \<open>fetch\<close> rejects (network error);
  \<^item> \<open>BodyNotJson\<close>: \<open>response.json()\<close> rejects (the body is not JSON);
  \<^item> \<open>ResultNull\<close>: the body is JSON \<open>null\<close>, and reading \<open>result.candidates\<close> raises;
  \<^item> \<open>NoText\<close>: \<open>result.candidates?.[0]?.content?.parts?.[0]?.text\<close> is undefined or
    empty, and the code throws;
  \<^item> \<open>TextNotJson\<close>: \<open>JSON.parse(jsonText)\<close> raises;
  \<^item> \<open>Parsed v\<close>: \<open>JSON.parse(jsonText)\<close> returns \<open>v\<close>.
\<close>

datatype 'j advisory_outcome =
  FetchRejected | BodyNotJson | ResultNull | NoText | TextNotJson | Parsed 'j

datatype js_error = NetworkError | SyntaxError | TypeError | Error string

text \<open>The \<open>try\<close> block: a value, or the exception thrown in it.\<close>

fun tryAdvisor :: "'j advisory_outcome \<Rightarrow> js_error + 'j" where
  "tryAdvisor FetchRejected = Inl NetworkError"
| "tryAdvisor BodyNotJson = Inl SyntaxError"
| "tryAdvisor ResultNull = Inl TypeError"
| "tryAdvisor NoText = Inl (Error ''Failed to get structured recommendation from AI.'')"
| "tryAdvisor TextNotJson = Inl SyntaxError"
| "tryAdvisor (Parsed v) = Inr v"

text \<open>What the function returns: the parsed reply as it is, or the rule-based object.\<close>

datatype 'j advice = AdvisorReply 'j | RuleBased recommendation

definition analysisPayload :: "js_builtins \<Rightarrow> room_with_metrics list \<Rightarrow> analysis_entry list" where
  "analysisPayload js roomAnalysis =
     map (\<lambda>r. \<lparr> roomName = room_name r,
                yearlyCost_INR = toFixed js (Num (costYearGrid (metrics r))) 0,
                requiredCapacity_KW = toFixed js (Num (requiredCapacityKW (metrics r))) 2,
                entry_roiYears = toFixed js (roiYears (metrics r)) 1,
                suggestedAction =
                  (if js_less (roiYears (metrics r)) (Num 5.0) then ''Convert to Solar''
                   else (if js_less (roiYears (metrics r)) (Num 10.0) then ''Hybrid Model''
                         else ''Stay on Grid'')) \<rparr>)
       roomAnalysis"

text \<open>The object returned by the \<open>catch\<close> block.\<close>

definition ruleBasedFallback :: "js_builtins \<Rightarrow> room_with_metrics list \<Rightarrow> recommendation" where
  "ruleBasedFallback js roomAnalysis =
     \<lparr> summary = ''AI recommendation service is unavailable. Falling back to rule-based analysis: Rooms with ROI < 5 years are suggested for solar conversion.'',
       totalSavings = 0,
       breakevenPeriod = 0,
       capacityNeeded = 0,
       roomRecommendations =
         map (\<lambda>r. \<lparr> rec_roomName = room_name r,
                    suggestion =
                      (if js_less (roiYears (metrics r)) (Num 5.0)
                       then ''Convert to Solar (Rule-Based)'' else ''Stay on Grid (Rule-Based)''),
                    reasoning =
                      (if js_less (roiYears (metrics r)) (Num 5.0)
                       then ''High usage and good ROI of '' @ toFixed js (roiYears (metrics r)) 1
                              @ '' years.''
                       else ''Low usage or high ROI of '' @ toFixed js (roiYears (metrics r)) 1
                              @ '' years.'') \<rparr>)
           roomAnalysis \<rparr>"

text \<open>
  \<open>advisor\<close> stands for the network and the service: it maps the request to the way
  the \<open>try\<close> block goes. It is called once.
\<close>

definition advisoryRequest ::
  "js_builtins \<Rightarrow> room_with_metrics list \<Rightarrow> building_metrics \<Rightarrow> advisory_request" where
  "advisoryRequest js roomAnalysis buildingData =
     \<lparr> req_totalCostYearGrid = formatCurrency js (totalCostYearGrid buildingData),
       req_totalRequiredCapacityKW =
         toFixed js (Num (totalRequiredCapacityKW buildingData)) 2,
       req_rooms = analysisPayload js roomAnalysis \<rparr>"

definition generateLLMRecommendation ::
  "js_builtins \<Rightarrow> (advisory_request \<Rightarrow> 'j advisory_outcome)
     \<Rightarrow> room_with_metrics list \<Rightarrow> building_metrics \<Rightarrow> 'j advice" where
  "generateLLMRecommendation js advisor roomAnalysis buildingData =
     (case tryAdvisor (advisor (advisoryRequest js roomAnalysis buildingData)) of
        Inr v \<Rightarrow> AdvisorReply v
      | Inl e \<Rightarrow> RuleBased (ruleBasedFallback js roomAnalysis))"

text \<open>The advisory call has failed when the \<open>try\<close> block does not reach its \<open>return\<close>.\<close>

fun advisory_failed :: "'j advisory_outcome \<Rightarrow> bool" where
  "advisory_failed (Parsed v) = False"
| "advisory_failed other = True"

section \<open>Inputs used in the examples\<close>

definition initialSolarSettings :: solar_settings where
  "initialSolarSettings =
     \<lparr> electricityRate = 9.0, solarCostPerKW = 70000, efficiencyFactor = 1.0,
       sunlightHours = 5, lifetimeYears = 25, annualInflation = 0.05 \<rparr>"

definition labA :: room where
  "labA = \<lparr> room_id = ''r1'', room_name = ''Lab A'', purpose = ''Lab'' \<rparr>"

definition office :: room where
  "office = \<lparr> room_id = ''r2'', room_name = ''Office'', purpose = ''Office'' \<rparr>"

definition heater :: device where
  "heater = \<lparr> dev_id = ''d1'', roomId = ''r1'', dev_name = ''Heater'',
              quantity = 2, powerW = 1500, usageHours = 6 \<rparr>"

definition strayFan :: device where
  "strayFan = \<lparr> dev_id = ''d2'', roomId = ''gone'', dev_name = ''Fan'',
                quantity = 1, powerW = 100, usageHours = 4 \<rparr>"

text \<open>Formatting functions with a fixed output, and a room with given ROI.\<close>

definition plainBuiltins :: js_builtins where
  "plainBuiltins = \<lparr> toFixed = (\<lambda>x digits. ''#''), numberFormat = (\<lambda>x. ''#'') \<rparr>"

definition analysedRoom :: "string \<Rightarrow> jsnum \<Rightarrow> room_with_metrics" where
  "analysedRoom name roi =
     \<lparr> room_id = name, room_name = name, purpose = ''Classroom'', devices = [],
       metrics = \<lparr> room_energyKWhDay = 10, costYearGrid = 32872.5, requiredCapacityKW = 2,
                   installationCost = 140000, roiYears = roi, yearlySavings = 32872.5 \<rparr> \<rparr>"

text \<open>
  The devices that belong to one of the rooms: those the storage contract keeps
  (deleting a room deletes its devices).
\<close>

definition withoutOrphans :: "room list \<Rightarrow> device list \<Rightarrow> device list" where
  "withoutOrphans rms devs = filter (\<lambda>d. roomId d \<in> set (map room_id rms)) devs"

section \<open>Facts about the loops\<close>

lemma roomDevices_map_eq:
  "roomDevices_map rate ds e c =
     (map (\<lambda>d. device.extend d (device_with_metrics.fields (calculateDeviceMetrics d rate))) ds,
      e + sum_list (map (\<lambda>d. energyKWhDay (calculateDeviceMetrics d rate)) ds),
      c + sum_list (map (\<lambda>d. costYear (calculateDeviceMetrics d rate)) ds))"
  by (induction ds arbitrary: e c) (simp_all add: Let_def)

lemma div_checked_pos: "0 < y \<Longrightarrow> div_checked x y = Some (x / y)"
  by (simp add: div_checked_def)

lemma roomWithMetrics_checked_eq:
  "roomWithMetrics_checked s devs room = Some (roomWithMetrics s devs room)"
  by (simp add: roomWithMetrics_checked_def roomWithMetrics_def Let_def requiredCapacity_def
      roiYearsOf_def div_checked_pos split: prod.splits)

lemma rooms_map_checked_eq:
  "rooms_map_checked s devs rms e c = Some (rooms_map s devs rms e c)"
  by (induction rms arbitrary: e c)
     (simp_all add: roomWithMetrics_checked_eq Let_def split: prod.splits)

lemma calculateBuildingTotals_checked_eq:
  "calculateBuildingTotals_checked rms devs s = Some (calculateBuildingTotals rms devs s)"
  by (simp add: calculateBuildingTotals_checked_def calculateBuildingTotals_def
      rooms_map_checked_eq Let_def requiredCapacity_def roiYearsOf_def div_checked_pos
      split: prod.splits)

lemma rooms_map_fst:
  "fst (rooms_map s devs rms e c) = map (\<lambda>r. fst (roomWithMetrics s devs r)) rms"
  by (induction rms arbitrary: e c) (simp_all add: Let_def case_prod_unfold)

lemma rooms_map_energy:
  "fst (snd (rooms_map s devs rms e c)) =
     e + sum_list (map (\<lambda>r. fst (snd (roomWithMetrics s devs r))) rms)"
  by (induction rms arbitrary: e c) (simp_all add: Let_def case_prod_unfold)

lemma rooms_map_cost:
  "snd (snd (rooms_map s devs rms e c)) =
     c + sum_list (map (\<lambda>r. snd (snd (roomWithMetrics s devs r))) rms)"
  by (induction rms arbitrary: e c) (simp_all add: Let_def case_prod_unfold)

subsection \<open>The result, field by field\<close>

lemma rooms_calculateBuildingTotals:
  "rooms (calculateBuildingTotals rms devs s) = map (\<lambda>r. fst (roomWithMetrics s devs r)) rms"
  by (simp add: calculateBuildingTotals_def Let_def case_prod_unfold rooms_map_fst)

lemma building_calculateBuildingTotals:
  "building (calculateBuildingTotals rms devs s) =
     (let totalEnergyKWhDay = sum_list (map (\<lambda>r. fst (snd (roomWithMetrics s devs r))) rms);
          totalCostYearGrid = sum_list (map (\<lambda>r. snd (snd (roomWithMetrics s devs r))) rms);
          totalRequiredCapacityKW =
            requiredCapacity (totalEnergyKWhDay * 365.25)
              (365.25 * sunlightHours s * efficiencyFactor s);
          totalInstallationCost = totalRequiredCapacityKW * solarCostPerKW s;
          totalROIYears = roiYearsOf totalInstallationCost totalCostYearGrid
      in \<lparr> totalEnergyKWhDay = totalEnergyKWhDay,
           totalCostYearGrid = totalCostYearGrid,
           totalRequiredCapacityKW = totalRequiredCapacityKW,
           totalInstallationCost = totalInstallationCost,
           totalROIYears = Math_min totalROIYears (Num 999),
           longTermSavings =
             fst (savingsLoop (lifetimeYears s) (annualInflation s) 0 0 totalCostYearGrid)
               - totalInstallationCost,
           paybackYears = totalROIYears,
           building_yearlySavings = totalCostYearGrid \<rparr>)"
  by (simp add: calculateBuildingTotals_def Let_def case_prod_unfold rooms_map_energy rooms_map_cost)

lemma metrics_roomWithMetrics:
  "metrics (fst (roomWithMetrics s devs room)) =
     (let roomEnergyKWhDay = fst (snd (roomWithMetrics s devs room));
          roomCostYearGrid = snd (snd (roomWithMetrics s devs room));
          requiredCapacityKW =
            requiredCapacity (roomEnergyKWhDay * 365.25)
              (365.25 * sunlightHours s * efficiencyFactor s);
          installationCost = requiredCapacityKW * solarCostPerKW s
      in \<lparr> room_energyKWhDay = roomEnergyKWhDay,
           costYearGrid = roomCostYearGrid,
           requiredCapacityKW = (if requiredCapacityKW > 0 then requiredCapacityKW else 0),
           installationCost = installationCost,
           roiYears = Math_min (roiYearsOf installationCost roomCostYearGrid) (Num 999),
           yearlySavings = roomCostYearGrid \<rparr>)"
  by (simp add: roomWithMetrics_def Let_def case_prod_unfold room.extend_def
      room_with_metrics.fields_def)

lemma roomWithMetrics_truncate: "room.truncate (fst (roomWithMetrics s devs room)) = room"
  by (simp add: roomWithMetrics_def Let_def room.truncate_def room.extend_def case_prod_unfold)

lemma filter_withoutOrphans:
  "room \<in> set rms \<Longrightarrow>
   filter (\<lambda>d. roomId d = room_id room) (withoutOrphans rms devs)
     = filter (\<lambda>d. roomId d = room_id room) devs"
  unfolding withoutOrphans_def filter_filter
  by (rule filter_cong) auto

lemma roomWithMetrics_withoutOrphans:
  "room \<in> set rms \<Longrightarrow>
   roomWithMetrics s (withoutOrphans rms devs) room = roomWithMetrics s devs room"
  by (simp add: roomWithMetrics_def filter_withoutOrphans)

lemma rooms_map_withoutOrphans:
  "set rs \<subseteq> set rms \<Longrightarrow>
   rooms_map s (withoutOrphans rms devs) rs e c = rooms_map s devs rs e c"
  by (induction rs arbitrary: e c) (simp_all add: roomWithMetrics_withoutOrphans)

lemma requiredCapacity_add:
  "requiredCapacity (a + b) g = requiredCapacity a g + requiredCapacity b g"
  by (simp add: requiredCapacity_def add_divide_distrib)

lemma requiredCapacity_zero: "requiredCapacity 0 g = 0"
  by (simp add: requiredCapacity_def)

lemma installation_sum:
  "requiredCapacity (sum_list (map f xs) * k) g * c
     = sum_list (map (\<lambda>x. requiredCapacity (f x * k) g * c) xs)"
  by (induction xs)
     (simp_all add: requiredCapacity_zero requiredCapacity_add distrib_right)

lemma requiredCapacity_no_generation: "requiredCapacity a 0 = 0"
  by (simp add: requiredCapacity_def)

lemma Math_min_roiYearsOf:
  "Math_min (roiYearsOf a b) (Num 999)
     = (if js_le (roiYearsOf a b) (Num 999) then roiYearsOf a b else Num 999)"
  by (simp add: roiYearsOf_def min_def)

lemma savingsLoop_sum:
  "i \<le> L \<Longrightarrow> n = L - i \<Longrightarrow>
   savingsLoop (real L) r i fs g
     = (fs + (\<Sum>k<n. g * (1 + r) ^ k), g * (1 + r) ^ n)"
proof (induction n arbitrary: i fs g)
  case 0
  then have "\<not> real i < real L" by simp
  then show ?case
    by (subst savingsLoop.simps) simp
next
  case (Suc n)
  then have lt: "real i < real L" and le: "i + 1 \<le> L" and n: "n = L - (i + 1)"
    by simp_all
  have "savingsLoop (real L) r i fs g
          = savingsLoop (real L) r (i + 1) (fs + g) (g * (1 + r))"
    using lt by (subst savingsLoop.simps) simp
  also have "\<dots> = (fs + g + (\<Sum>k<n. g * (1 + r) * (1 + r) ^ k), g * (1 + r) * (1 + r) ^ n)"
    by (rule Suc.IH [OF le n])
  also have "\<dots> = (fs + (\<Sum>k<Suc n. g * (1 + r) ^ k), g * (1 + r) ^ Suc n)"
    by (simp add: sum.lessThan_Suc_shift mult.assoc del: sum.lessThan_Suc)
  finally show ?case .
qed

lemma futureSavings_sum:
  "fst (savingsLoop (real L) r 0 0 g) = (\<Sum>k<L. g * (1 + r) ^ k)"
  by (simp add: savingsLoop_sum [of 0 L L])

lemma tryAdvisor_failed: "advisory_failed out \<Longrightarrow> \<exists>e. tryAdvisor out = Inl e"
  by (cases out) simp_all

section \<open>Device metrics: the formulas\<close>

text \<open>
  C5. For every device and every rate, \<open>calculateDeviceMetrics\<close> returns
  \<open>energyKWhDay = (powerW / 1000) * quantity * usageHours\<close>,
  \<open>costDay = energyKWhDay * rate\<close>, \<open>costMonth = costDay * 365.25 / 12\<close> and
  \<open>costYear = costDay * 365.25\<close>; a device with \<open>usageHours = 0\<close> or \<open>quantity = 0\<close>
  has zero energy and zero cost per day, month and year.
\<close>

theorem calculateDeviceMetrics_formulas:
  "energyKWhDay (calculateDeviceMetrics d rate) = (powerW d / 1000) * quantity d * usageHours d
   \<and> costDay (calculateDeviceMetrics d rate) = energyKWhDay (calculateDeviceMetrics d rate) * rate
   \<and> costMonth (calculateDeviceMetrics d rate) = costDay (calculateDeviceMetrics d rate) * (365.25 / 12)
   \<and> costYear (calculateDeviceMetrics d rate) = costDay (calculateDeviceMetrics d rate) * 365.25
   \<and> (usageHours d = 0 \<or> quantity d = 0 \<longrightarrow>
        energyKWhDay (calculateDeviceMetrics d rate) = 0
        \<and> costDay (calculateDeviceMetrics d rate) = 0
        \<and> costMonth (calculateDeviceMetrics d rate) = 0
        \<and> costYear (calculateDeviceMetrics d rate) = 0)"
  by (auto simp add: calculateDeviceMetrics_def Let_def)

theorem calculateDeviceMetrics_formulas_witness:
  "usageHours (heater\<lparr>usageHours := 0\<rparr>) = 0
   \<and> calculateDeviceMetrics (heater\<lparr>usageHours := 0\<rparr>) 9
       = \<lparr> energyKWhDay = 0, costDay = 0, costMonth = 0, costYear = 0 \<rparr>
   \<and> energyKWhDay (calculateDeviceMetrics heater 9) = 18
   \<and> costYear (calculateDeviceMetrics heater 9) = 59170.5"
  using calculateDeviceMetrics_formulas [of "heater\<lparr>usageHours := 0\<rparr>" 9]
    calculateDeviceMetrics_formulas [of heater 9]
  by (simp add: heater_def device_metrics.equality)

section \<open>Rooms: order and fields\<close>

text \<open>
  C10. The \<open>rooms\<close> array of the result has one entry per input room, in the order of
  the input, and each entry cut back to the fields of a room (id, name, purpose) is the
  input room: the entry is the room with the two fields \<open>devices\<close> and \<open>metrics\<close>
  added.
\<close>

theorem rooms_preserved:
  "length (rooms (calculateBuildingTotals rms devs s)) = length rms
   \<and> map room.truncate (rooms (calculateBuildingTotals rms devs s)) = rms"
  by (simp add: rooms_calculateBuildingTotals comp_def roomWithMetrics_truncate)

theorem rooms_preserved_witness:
  "map room.truncate (rooms (calculateBuildingTotals [labA, office] [heater, strayFan]
       initialSolarSettings)) = [labA, office]
   \<and> map room_name (rooms (calculateBuildingTotals [labA, office] [heater, strayFan]
       initialSolarSettings)) = [''Lab A'', ''Office'']"
  using rooms_preserved [of "[labA, office]" "[heater, strayFan]" initialSolarSettings]
  by (simp add: rooms_calculateBuildingTotals roomWithMetrics_def Let_def case_prod_unfold
      room.extend_def labA_def office_def)

section \<open>Devices of no room\<close>

text \<open>
  C9. A device whose \<open>roomId\<close> is the id of no room in the list contributes nothing:
  \<open>calculateBuildingTotals\<close> returns the same result (every room and the building)
  when all such devices are removed from the device list.
\<close>

theorem orphans_ignored:
  "calculateBuildingTotals rms (withoutOrphans rms devs) s = calculateBuildingTotals rms devs s"
  by (simp add: calculateBuildingTotals_def rooms_map_withoutOrphans)

theorem orphans_ignored_witness:
  "withoutOrphans [labA, office] [heater, strayFan] = [heater]
   \<and> calculateBuildingTotals [labA, office] [heater] initialSolarSettings
       = calculateBuildingTotals [labA, office] [heater, strayFan] initialSolarSettings"
  using orphans_ignored [of "[labA, office]" "[heater, strayFan]" initialSolarSettings]
  by (simp add: withoutOrphans_def labA_def office_def heater_def strayFan_def)

section \<open>Installation cost is additive\<close>

text \<open>
  C3. The building's \<open>totalInstallationCost\<close> is the sum, over the rooms of the result,
  of the rooms' \<open>installationCost\<close> (in exact arithmetic).
\<close>

theorem totalInstallationCost_additive:
  "totalInstallationCost (building (calculateBuildingTotals rms devs s))
     = sum_list (map (\<lambda>r. installationCost (metrics r))
         (rooms (calculateBuildingTotals rms devs s)))"
proof -
  let ?g = "365.25 * sunlightHours s * efficiencyFactor s"
  let ?e = "\<lambda>r. fst (snd (roomWithMetrics s devs r))"
  have "totalInstallationCost (building (calculateBuildingTotals rms devs s))
          = requiredCapacity (sum_list (map ?e rms) * 365.25) ?g * solarCostPerKW s"
    by (simp only: building_calculateBuildingTotals Let_def building_metrics.simps)
  also have "\<dots> = sum_list (map (\<lambda>r. requiredCapacity (?e r * 365.25) ?g * solarCostPerKW s) rms)"
    by (rule installation_sum)
  also have "\<dots> = sum_list (map (\<lambda>r. installationCost (metrics (fst (roomWithMetrics s devs r)))) rms)"
    by (simp only: metrics_roomWithMetrics Let_def room_metrics.simps)
  also have "\<dots> = sum_list (map (\<lambda>r. installationCost (metrics r))
                       (rooms (calculateBuildingTotals rms devs s)))"
    by (simp only: rooms_calculateBuildingTotals map_map comp_def)
  finally show ?thesis .
qed

theorem totalInstallationCost_additive_witness:
  "totalInstallationCost (building (calculateBuildingTotals [labA, office] [heater, strayFan]
       initialSolarSettings)) = 252000
   \<and> map (\<lambda>r. installationCost (metrics r))
        (rooms (calculateBuildingTotals [labA, office] [heater, strayFan] initialSolarSettings))
       = [252000, 0]"
  using totalInstallationCost_additive [of "[labA, office]" "[heater, strayFan]" initialSolarSettings]
  by (simp add: rooms_calculateBuildingTotals Let_def
      roomWithMetrics_def labA_def office_def heater_def strayFan_def initialSolarSettings_def
      calculateDeviceMetrics_def requiredCapacity_def room.extend_def room_with_metrics.fields_def)

section \<open>No generation, no capacity, no division by zero\<close>

text \<open>
  C7. When \<open>sunlightHours = 0\<close> or \<open>efficiencyFactor = 0\<close>, every room of the result
  has \<open>requiredCapacityKW = 0\<close>, the building has \<open>totalRequiredCapacityKW = 0\<close>, and no
  division of the computation has a zero divisor: the computation with checked
  divisions returns the same result, not \<open>None\<close>.
\<close>

theorem no_sunlight_no_capacity:
  assumes "sunlightHours s = 0 \<or> efficiencyFactor s = 0"
  shows "calculateBuildingTotals_checked rms devs s = Some (calculateBuildingTotals rms devs s)
         \<and> (\<forall>r \<in> set (rooms (calculateBuildingTotals rms devs s)).
               requiredCapacityKW (metrics r) = 0)
         \<and> totalRequiredCapacityKW (building (calculateBuildingTotals rms devs s)) = 0"
proof -
  from assms have g: "365.25 * sunlightHours s * efficiencyFactor s = 0"
    by auto
  have "requiredCapacityKW (metrics (fst (roomWithMetrics s devs room))) = 0" for room
    by (simp only: metrics_roomWithMetrics Let_def room_metrics.simps g
        requiredCapacity_no_generation if_cancel)
  moreover have "totalRequiredCapacityKW (building (calculateBuildingTotals rms devs s)) = 0"
    by (simp only: building_calculateBuildingTotals Let_def building_metrics.simps g
        requiredCapacity_no_generation)
  ultimately show ?thesis
    by (simp add: calculateBuildingTotals_checked_eq rooms_calculateBuildingTotals)
qed

theorem no_sunlight_no_capacity_witness:
  "sunlightHours (initialSolarSettings\<lparr>sunlightHours := 0\<rparr>) = 0
   \<and> calculateBuildingTotals_checked [labA, office] [heater]
        (initialSolarSettings\<lparr>sunlightHours := 0\<rparr>)
       = Some (calculateBuildingTotals [labA, office] [heater]
                (initialSolarSettings\<lparr>sunlightHours := 0\<rparr>))
   \<and> map (\<lambda>r. requiredCapacityKW (metrics r))
        (rooms (calculateBuildingTotals [labA, office] [heater]
                (initialSolarSettings\<lparr>sunlightHours := 0\<rparr>))) = [0, 0]
   \<and> map (\<lambda>r. room_energyKWhDay (metrics r))
        (rooms (calculateBuildingTotals [labA, office] [heater]
                (initialSolarSettings\<lparr>sunlightHours := 0\<rparr>))) = [18, 0]
   \<and> totalRequiredCapacityKW (building (calculateBuildingTotals [labA, office] [heater]
        (initialSolarSettings\<lparr>sunlightHours := 0\<rparr>))) = 0"
  using no_sunlight_no_capacity [of "initialSolarSettings\<lparr>sunlightHours := 0\<rparr>"
      "[labA, office]" "[heater]"]
  by (simp add: rooms_calculateBuildingTotals Let_def
      roomWithMetrics_def labA_def office_def heater_def initialSolarSettings_def
      calculateDeviceMetrics_def requiredCapacity_def room.extend_def room_with_metrics.fields_def)

section \<open>Payback and the clamped ROI of the building\<close>

text \<open>
  C1, as the code has it. \<open>paybackYears\<close> is the ROI of the building before the clamp:
  \<open>totalInstallationCost / totalYearlySavings\<close> when the yearly savings are positive,
  \<open>Infinity\<close> otherwise. The returned \<open>totalROIYears\<close> is \<open>Math.min(paybackYears, 999)\<close>:
  it equals \<open>paybackYears\<close> when that is at most 999, and is 999 otherwise, while
  \<open>paybackYears\<close> keeps the value before the clamp.
\<close>

theorem paybackYears_unclamped:
  "paybackYears (building (calculateBuildingTotals rms devs s))
     = roiYearsOf (totalInstallationCost (building (calculateBuildingTotals rms devs s)))
         (building_yearlySavings (building (calculateBuildingTotals rms devs s)))
   \<and> totalROIYears (building (calculateBuildingTotals rms devs s))
       = Math_min (paybackYears (building (calculateBuildingTotals rms devs s))) (Num 999)
   \<and> totalROIYears (building (calculateBuildingTotals rms devs s))
       = (if js_le (paybackYears (building (calculateBuildingTotals rms devs s))) (Num 999)
          then paybackYears (building (calculateBuildingTotals rms devs s))
          else Num 999)"
proof -
  let ?b = "building (calculateBuildingTotals rms devs s)"
  have p: "paybackYears ?b = roiYearsOf (totalInstallationCost ?b) (building_yearlySavings ?b)"
    by (simp only: building_calculateBuildingTotals Let_def building_metrics.simps)
  have t: "totalROIYears ?b = Math_min (paybackYears ?b) (Num 999)"
    by (simp only: building_calculateBuildingTotals Let_def building_metrics.simps)
  have "Math_min x (Num 999) = (if js_le x (Num 999) then x else Num 999)"
    if "x = roiYearsOf a b" for x a b
    using that by (auto simp add: roiYearsOf_def min_def)
  from this [OF p] p t show ?thesis
    by simp
qed

theorem paybackYears_unclamped_witness:
  "paybackYears (building (calculateBuildingTotals [labA, office] [heater, strayFan]
      initialSolarSettings)) = Num (56000 / 13149)
   \<and> totalROIYears (building (calculateBuildingTotals [labA, office] [heater, strayFan]
      initialSolarSettings)) = Num (56000 / 13149)
   \<and> js_le (Num (56000 / 13149)) (Num 999)"
  using paybackYears_unclamped [of "[labA, office]" "[heater, strayFan]" initialSolarSettings]
  by (simp add: building_calculateBuildingTotals Let_def roiYearsOf_def
      roomWithMetrics_def labA_def office_def heater_def strayFan_def initialSolarSettings_def
      calculateDeviceMetrics_def requiredCapacity_def)

text \<open>
  C1, as it is stated (\<open>paybackYears\<close> equals the returned \<open>totalROIYears\<close>, 999 when
  the ratio is \<open>Infinity\<close>), fails for a building with no rooms: the yearly savings are 0,
  \<open>paybackYears\<close> is \<open>Infinity\<close> and \<open>totalROIYears\<close> is 999.
\<close>

theorem paybackYears_clamped_counterexample:
  "paybackYears (building (calculateBuildingTotals [] [] initialSolarSettings)) = PosInfinity
   \<and> totalROIYears (building (calculateBuildingTotals [] [] initialSolarSettings)) = Num 999
   \<and> paybackYears (building (calculateBuildingTotals [] [] initialSolarSettings))
       \<noteq> totalROIYears (building (calculateBuildingTotals [] [] initialSolarSettings))"
  by (simp add: building_calculateBuildingTotals Let_def roiYearsOf_def)

section \<open>The clamp of a room's ROI\<close>

text \<open>
  C4. The \<open>roiYears\<close> of a room of the result is \<open>Math.min\<close> of 999 and the ROI before
  the clamp, which is computed from the room's \<open>installationCost\<close> and \<open>yearlySavings\<close>.
  When the room's \<open>yearlySavings\<close> is 0, the ROI before the clamp is \<open>Infinity\<close> and the
  returned \<open>roiYears\<close> is 999; when the ROI before the clamp is at most 999, the returned
  \<open>roiYears\<close> is that value.
\<close>

theorem room_roiYears_clamp:
  assumes "i < length rms"
  shows "roiYears (metrics (rooms (calculateBuildingTotals rms devs s) ! i))
           = Math_min (roiYearsOf
                (installationCost (metrics (rooms (calculateBuildingTotals rms devs s) ! i)))
                (yearlySavings (metrics (rooms (calculateBuildingTotals rms devs s) ! i))))
               (Num 999)
         \<and> (yearlySavings (metrics (rooms (calculateBuildingTotals rms devs s) ! i)) = 0 \<longrightarrow>
              roiYearsOf
                (installationCost (metrics (rooms (calculateBuildingTotals rms devs s) ! i)))
                (yearlySavings (metrics (rooms (calculateBuildingTotals rms devs s) ! i)))
                = PosInfinity
              \<and> roiYears (metrics (rooms (calculateBuildingTotals rms devs s) ! i)) = Num 999)
         \<and> (js_le (roiYearsOf
                (installationCost (metrics (rooms (calculateBuildingTotals rms devs s) ! i)))
                (yearlySavings (metrics (rooms (calculateBuildingTotals rms devs s) ! i))))
              (Num 999) \<longrightarrow>
              roiYears (metrics (rooms (calculateBuildingTotals rms devs s) ! i))
                = roiYearsOf
                    (installationCost (metrics (rooms (calculateBuildingTotals rms devs s) ! i)))
                    (yearlySavings (metrics (rooms (calculateBuildingTotals rms devs s) ! i))))"
proof -
  let ?m = "metrics (rooms (calculateBuildingTotals rms devs s) ! i)"
  from assms have m: "?m = metrics (fst (roomWithMetrics s devs (rms ! i)))"
    by (simp add: rooms_calculateBuildingTotals)
  have r: "roiYears ?m = Math_min (roiYearsOf (installationCost ?m) (yearlySavings ?m)) (Num 999)"
    unfolding m by (simp only: metrics_roomWithMetrics Let_def room_metrics.simps)
  have z: "roiYearsOf a 0 = PosInfinity" for a
    by (simp add: roiYearsOf_def)
  show ?thesis
    using r by (auto simp add: z Math_min_roiYearsOf)
qed

theorem room_roiYears_clamp_witness:
  "yearlySavings (metrics (rooms (calculateBuildingTotals [labA, office] [heater, strayFan]
      initialSolarSettings) ! 1)) = 0
   \<and> roiYears (metrics (rooms (calculateBuildingTotals [labA, office] [heater, strayFan]
      initialSolarSettings) ! 1)) = Num 999
   \<and> roiYearsOf
       (installationCost (metrics (rooms (calculateBuildingTotals [labA, office]
          [heater, strayFan] initialSolarSettings) ! 0)))
       (yearlySavings (metrics (rooms (calculateBuildingTotals [labA, office]
          [heater, strayFan] initialSolarSettings) ! 0))) = Num (56000 / 13149)
   \<and> js_le (Num (56000 / 13149)) (Num 999)
   \<and> roiYears (metrics (rooms (calculateBuildingTotals [labA, office] [heater, strayFan]
      initialSolarSettings) ! 0)) = Num (56000 / 13149)"
  using room_roiYears_clamp [of 0 "[labA, office]" "[heater, strayFan]" initialSolarSettings]
    room_roiYears_clamp [of 1 "[labA, office]" "[heater, strayFan]" initialSolarSettings]
  by (simp add: rooms_calculateBuildingTotals Let_def roiYearsOf_def
      roomWithMetrics_def labA_def office_def heater_def strayFan_def initialSolarSettings_def
      calculateDeviceMetrics_def requiredCapacity_def room.extend_def room_with_metrics.fields_def)

section \<open>The savings projection\<close>

text \<open>
  C6. When \<open>lifetimeYears\<close> is a whole number \<open>L\<close>, the loop leaves in \<open>futureSavings\<close>
  the sum over \<open>i = 0, ..., L - 1\<close> of \<open>totalCostYearGrid * (1 + annualInflation) ^ i\<close>
  (the first year is not inflated), and \<open>longTermSavings\<close> is that sum minus
  \<open>totalInstallationCost\<close>; with \<open>annualInflation = 0\<close> this is
  \<open>L * totalCostYearGrid - totalInstallationCost\<close>.
\<close>

theorem longTermSavings_projection:
  assumes "lifetimeYears s = real L"
  shows "fst (savingsLoop (lifetimeYears s) (annualInflation s) 0 0
              (totalCostYearGrid (building (calculateBuildingTotals rms devs s))))
           = (\<Sum>i<L. totalCostYearGrid (building (calculateBuildingTotals rms devs s))
                        * (1 + annualInflation s) ^ i)
         \<and> longTermSavings (building (calculateBuildingTotals rms devs s))
             = (\<Sum>i<L. totalCostYearGrid (building (calculateBuildingTotals rms devs s))
                          * (1 + annualInflation s) ^ i)
               - totalInstallationCost (building (calculateBuildingTotals rms devs s))
         \<and> (annualInflation s = 0 \<longrightarrow>
              longTermSavings (building (calculateBuildingTotals rms devs s))
                = real L * totalCostYearGrid (building (calculateBuildingTotals rms devs s))
                  - totalInstallationCost (building (calculateBuildingTotals rms devs s)))"
proof -
  let ?b = "building (calculateBuildingTotals rms devs s)"
  have f: "fst (savingsLoop (lifetimeYears s) (annualInflation s) 0 0 (totalCostYearGrid ?b))
             = (\<Sum>i<L. totalCostYearGrid ?b * (1 + annualInflation s) ^ i)"
    unfolding assms by (rule futureSavings_sum)
  have "longTermSavings ?b
          = fst (savingsLoop (lifetimeYears s) (annualInflation s) 0 0 (totalCostYearGrid ?b))
            - totalInstallationCost ?b"
    by (simp only: building_calculateBuildingTotals Let_def building_metrics.simps)
  with f have l: "longTermSavings ?b
          = (\<Sum>i<L. totalCostYearGrid ?b * (1 + annualInflation s) ^ i)
            - totalInstallationCost ?b"
    by simp
  have "longTermSavings ?b = real L * totalCostYearGrid ?b - totalInstallationCost ?b"
    if "annualInflation s = 0"
    using l that by simp
  with f l show ?thesis
    by blast
qed

theorem longTermSavings_projection_witness:
  "lifetimeYears (initialSolarSettings\<lparr>lifetimeYears := 2\<rparr>) = real 2
   \<and> totalCostYearGrid (building (calculateBuildingTotals [labA] [heater]
        (initialSolarSettings\<lparr>lifetimeYears := 2\<rparr>))) = 59170.5
   \<and> longTermSavings (building (calculateBuildingTotals [labA] [heater]
        (initialSolarSettings\<lparr>lifetimeYears := 2\<rparr>)))
       = (59170.5 + 59170.5 * 1.05) - 252000
   \<and> annualInflation (initialSolarSettings\<lparr>lifetimeYears := 2, annualInflation := 0\<rparr>) = 0
   \<and> longTermSavings (building (calculateBuildingTotals [labA] [heater]
        (initialSolarSettings\<lparr>lifetimeYears := 2, annualInflation := 0\<rparr>)))
       = 2 * 59170.5 - 252000"
  using longTermSavings_projection [of "initialSolarSettings\<lparr>lifetimeYears := 2\<rparr>" 2
      "[labA]" "[heater]"]
    longTermSavings_projection [of "initialSolarSettings\<lparr>lifetimeYears := 2, annualInflation := 0\<rparr>" 2
      "[labA]" "[heater]"]
  by (simp add: building_calculateBuildingTotals Let_def
      roomWithMetrics_def labA_def heater_def initialSolarSettings_def
      calculateDeviceMetrics_def requiredCapacity_def lessThan_Suc numeral_2_eq_2)

section \<open>The rule-based fallback\<close>

text \<open>
  C2. When the advisory call fails (the network, a body that is not JSON, a reply with
  no text, or a text that is not JSON), \<open>generateLLMRecommendation\<close> returns the
  rule-based recommendation: one entry per input room, in order, with the suggestion
  \<open>Convert to Solar (Rule-Based)\<close> when the room's \<open>roiYears < 5\<close> and
  \<open>Stay on Grid (Rule-Based)\<close> otherwise, and with \<open>totalSavings\<close>, \<open>breakevenPeriod\<close>
  and \<open>capacityNeeded\<close> all 0. The exception of the \<open>try\<close> block is caught: the
  function returns.
\<close>

theorem fallback_on_failure:
  assumes "advisory_failed (advisor (advisoryRequest js roomAnalysis buildingData))"
  shows "generateLLMRecommendation js advisor roomAnalysis buildingData
           = RuleBased (ruleBasedFallback js roomAnalysis)
         \<and> length (roomRecommendations (ruleBasedFallback js roomAnalysis)) = length roomAnalysis
         \<and> map suggestion (roomRecommendations (ruleBasedFallback js roomAnalysis))
             = map (\<lambda>r. if js_less (roiYears (metrics r)) (Num 5)
                         then ''Convert to Solar (Rule-Based)''
                         else ''Stay on Grid (Rule-Based)'') roomAnalysis
         \<and> totalSavings (ruleBasedFallback js roomAnalysis) = 0
         \<and> breakevenPeriod (ruleBasedFallback js roomAnalysis) = 0
         \<and> capacityNeeded (ruleBasedFallback js roomAnalysis) = 0"
proof -
  from tryAdvisor_failed [OF assms] obtain e
    where "tryAdvisor (advisor (advisoryRequest js roomAnalysis buildingData)) = Inl e" ..
  then have "generateLLMRecommendation js advisor roomAnalysis buildingData
               = RuleBased (ruleBasedFallback js roomAnalysis)"
    by (simp add: generateLLMRecommendation_def)
  then show ?thesis
    by (simp add: ruleBasedFallback_def comp_def)
qed

theorem fallback_on_failure_witness:
  "advisory_failed (NoText :: unit advisory_outcome)
   \<and> generateLLMRecommendation plainBuiltins (\<lambda>req. NoText :: unit advisory_outcome)
        [analysedRoom ''A'' (Num 4), analysedRoom ''B'' (Num 5), analysedRoom ''C'' NaN]
        (building (calculateBuildingTotals [] [] initialSolarSettings))
       = RuleBased (ruleBasedFallback plainBuiltins
           [analysedRoom ''A'' (Num 4), analysedRoom ''B'' (Num 5), analysedRoom ''C'' NaN])
   \<and> map suggestion (roomRecommendations (ruleBasedFallback plainBuiltins
           [analysedRoom ''A'' (Num 4), analysedRoom ''B'' (Num 5), analysedRoom ''C'' NaN]))
       = [''Convert to Solar (Rule-Based)'', ''Stay on Grid (Rule-Based)'',
          ''Stay on Grid (Rule-Based)'']"
  using fallback_on_failure [of "\<lambda>req. NoText :: unit advisory_outcome" plainBuiltins
      "[analysedRoom ''A'' (Num 4), analysedRoom ''B'' (Num 5), analysedRoom ''C'' NaN]"
      "building (calculateBuildingTotals [] [] initialSolarSettings)"]
  by (simp add: analysedRoom_def)

section \<open>The suggested action sent to the advisory service\<close>

text \<open>
  C8. In the request built for the advisory service, the \<open>suggestedAction\<close> of each
  room follows from the room's \<open>roiYears\<close>: \<open>Convert to Solar\<close> when \<open>roiYears < 5\<close>,
  \<open>Hybrid Model\<close> when \<open>5 <= roiYears < 10\<close>, and \<open>Stay on Grid\<close> otherwise.
\<close>

theorem suggestedAction_thresholds:
  "map suggestedAction (req_rooms (advisoryRequest js roomAnalysis buildingData))
     = map (\<lambda>r. if js_less (roiYears (metrics r)) (Num 5) then ''Convert to Solar''
                 else if js_le (Num 5) (roiYears (metrics r))
                         \<and> js_less (roiYears (metrics r)) (Num 10) then ''Hybrid Model''
                 else ''Stay on Grid'') roomAnalysis"
proof -
  have "js_le (Num 5) x" if "\<not> js_less x (Num 5)" and "js_less x (Num 10)" for x
    using that by (cases x) simp_all
  then show ?thesis
    by (auto simp add: advisoryRequest_def analysisPayload_def comp_def)
qed

theorem suggestedAction_thresholds_witness:
  "map suggestedAction (req_rooms (advisoryRequest plainBuiltins
      [analysedRoom ''A'' (Num 4), analysedRoom ''B'' (Num 5), analysedRoom ''C'' (Num 9.9),
       analysedRoom ''D'' (Num 10), analysedRoom ''E'' (Num 999), analysedRoom ''F'' NaN]
      (building (calculateBuildingTotals [] [] initialSolarSettings))))
     = [''Convert to Solar'', ''Hybrid Model'', ''Hybrid Model'', ''Stay on Grid'',
        ''Stay on Grid'', ''Stay on Grid'']"
  using suggestedAction_thresholds [of plainBuiltins
      "[analysedRoom ''A'' (Num 4), analysedRoom ''B'' (Num 5), analysedRoom ''C'' (Num 9.9),
        analysedRoom ''D'' (Num 10), analysedRoom ''E'' (Num 999), analysedRoom ''F'' NaN]"
      "building (calculateBuildingTotals [] [] initialSolarSettings)"]
  by (simp add: analysedRoom_def)

end
